theory Spec2Isabelle
  imports Main
begin

section \<open>wiex: invoking a command with an extended search path\<close>

text \<open>
  The development embeds \<^verbatim>\<open>src/index.ts\<close>: the function \<^verbatim>\<open>wiex\<close>, the listeners it
  registers on the two child processes, and the argument scan of \<^verbatim>\<open>cli\<close>.

  The program is event driven. Its synchronous part is modelled as a function on the
  state of the host process; every listener is a function on that state, and the runtime
  is a list of events delivered in order. The outcome of each call to \<^verbatim>\<open>spawn\<close> is a
  parameter, since it is decided by the operating system. The relay of the two output
  streams (lines 73 and 74) touches no state that the listeners read and is left out.
\<close>

subsection \<open>Values of the runtime\<close>

text \<open>
  A template literal renders a missing value as the text \<^verbatim>\<open>undefined\<close>, a string as itself
  and an integer in decimal.
\<close>

fun decimal :: "nat \<Rightarrow> string" where
  "decimal n =
     (if n < 10 then [''0123456789'' ! n]
      else decimal (n div 10) @ [''0123456789'' ! (n mod 10)])"

declare decimal.simps [simp del]

definition template_str :: "string option \<Rightarrow> string" where
  "template_str v = (case v of None \<Rightarrow> ''undefined'' | Some s \<Rightarrow> s)"

definition template_num :: "nat option \<Rightarrow> string" where
  "template_num v = (case v of None \<Rightarrow> ''undefined'' | Some n \<Rightarrow> decimal n)"

text \<open>
  \<^verbatim>\<open>!WIEX_PATH\<close> holds for a missing variable and for the empty string; an optional
  boolean is truthy only when it is \<^verbatim>\<open>true\<close>.
\<close>

definition falsy_str :: "string option \<Rightarrow> bool" where
  "falsy_str v = (case v of None \<Rightarrow> True | Some s \<Rightarrow> s = [])"

definition truthy :: "bool option \<Rightarrow> bool" where
  "truthy b = (case b of None \<Rightarrow> False | Some t \<Rightarrow> t)"

subsection \<open>The host process\<close>

datatype level = Info | Warn | Error

datatype settlement = Resolved | Rejected

record spawn_call =
  program :: string
  argv :: "string list option"
  child_env :: "(string \<rightharpoonup> string) option"

text \<open>
  \<open>env\<close> is \<^verbatim>\<open>process.env\<close>; \<open>logged\<close> the calls made on the logger, oldest first;
  \<open>exitCode\<close> is \<^verbatim>\<open>process.exitCode\<close>; \<open>exited\<close> is the status given to
  \<^verbatim>\<open>process.exit\<close>, after which nothing runs; \<open>spawn_calls\<close> the calls of \<^verbatim>\<open>spawn\<close>;
  \<open>detached\<close> the promises that a listener creates and drops. Exit statuses are the
  non-negative integers the runtime reports.
\<close>

record host =
  env :: "string \<rightharpoonup> string"
  logged :: "(level \<times> string) list"
  exitCode :: "nat option"
  exited :: "nat option"
  spawn_calls :: "spawn_call list"
  detached :: "settlement list"

definition logger_call :: "level \<Rightarrow> string \<Rightarrow> host \<Rightarrow> host" where
  "logger_call lv message h = h\<lparr>logged := logged h @ [(lv, message)]\<rparr>"

definition process_exit :: "nat \<Rightarrow> host \<Rightarrow> host" where
  "process_exit status h = h\<lparr>exited := Some status\<rparr>"

definition spawn :: "spawn_call \<Rightarrow> host \<Rightarrow> host" where
  "spawn c h = h\<lparr>spawn_calls := spawn_calls h @ [c]\<rparr>"

definition new_promise :: "settlement \<Rightarrow> host \<Rightarrow> host" where
  "new_promise s h = h\<lparr>detached := detached h @ [s]\<rparr>"

text \<open>The host process when the program starts, with a given environment.\<close>

definition start :: "(string \<rightharpoonup> string) \<Rightarrow> host" where
  "start e = \<lparr>env = e, logged = [], exitCode = None, exited = None, spawn_calls = [],
     detached = []\<rparr>"

text \<open>
  A call of \<^verbatim>\<open>spawn\<close> either throws or returns a child, whose \<^verbatim>\<open>pid\<close> is missing when
  the child could not be started.
\<close>

datatype spawn_outcome = Throws | Child "nat option"

subsection \<open>The function \<^verbatim>\<open>wiex\<close>\<close>

text \<open>Lines 43 and 44: the severity and the settlement chosen by \<^verbatim>\<open>strict\<close>.\<close>

definition errorIfStrictOrWarn :: "bool option \<Rightarrow> level" where
  "errorIfStrictOrWarn strict = (if truthy strict then Error else Warn)"

definition rejectIfStrictOrResolve :: "bool option \<Rightarrow> host \<Rightarrow> host" where
  "rejectIfStrictOrResolve strict h =
     (if truthy strict then new_promise Rejected h else new_promise Resolved h)"

definition commandNotExistErrorMessage :: "string \<Rightarrow> string" where
  "commandNotExistErrorMessage command = ''Error: '' @ command @ '' not found''"

definition not_found :: "string \<Rightarrow> host \<Rightarrow> host" where
  "not_found command h =
     process_exit 1 (logger_call Error (commandNotExistErrorMessage command) h)"

text \<open>
  What one call leaves behind: the promise it returned (\<open>None\<close> when the body never
  returned), whether the listeners of the lookup are registered, and the listeners of the
  child with the \<^verbatim>\<open>pid\<close> they captured.
\<close>

datatype listeners = Unattached | Attached "nat option"

record call =
  promise :: "settlement option"
  where_on :: bool
  proc_on :: listeners

definition child_environment :: "host \<Rightarrow> (string \<rightharpoonup> string)" where
  "child_environment h =
     (env h)(''PATH'' \<mapsto> template_str (env h ''PATH'') @ '':'' @ template_str (env h ''WIEX_PATH''))"

text \<open>
  The body of \<^verbatim>\<open>wiex\<close>, lines 43 to 93. It contains no \<^verbatim>\<open>await\<close>: the promise of
  the call is resolved when the body returns, and rejected when the second \<^verbatim>\<open>spawn\<close>
  throws. When the first \<^verbatim>\<open>spawn\<close> throws, the \<^verbatim>\<open>catch\<close> block ends the process.
\<close>

definition wiex ::
  "string \<Rightarrow> string list option \<Rightarrow> bool option \<Rightarrow> bool option \<Rightarrow>
   spawn_outcome \<Rightarrow> spawn_outcome \<Rightarrow> host \<Rightarrow> call \<times> host" where
  "wiex command commandArgs strict verbose lookup child h0 =
     (let h1 = (if falsy_str (env h0 ''WIEX_PATH'')
                then logger_call Warn ''$WIEX_PATH is not set, so wiex not expand $PATH'' h0
                else h0);
          h2 = spawn \<lparr>program = ''where '' @ command, argv = None, child_env = None\<rparr> h1
      in case lookup of
           Throws \<Rightarrow>
             (\<lparr>promise = None, where_on = False, proc_on = Unattached\<rparr>, not_found command h2)
         | Child _ \<Rightarrow>
             (let h3 = spawn \<lparr>program = command, argv = commandArgs,
                              child_env = Some (child_environment h2)\<rparr> h2
              in case child of
                   Throws \<Rightarrow>
                     (\<lparr>promise = Some Rejected, where_on = True, proc_on = Unattached\<rparr>, h3)
                 | Child pid \<Rightarrow>
                     (\<lparr>promise = Some Resolved, where_on = True, proc_on = Attached pid\<rparr>, h3)))"

subsection \<open>The listeners\<close>

definition on_where_close :: "string \<Rightarrow> nat option \<Rightarrow> host \<Rightarrow> host" where
  "on_where_close command code h =
     (case code of
        None \<Rightarrow> not_found command h
      | Some c \<Rightarrow> if c > 0 then not_found command h else h)"

definition on_where_error :: "string \<Rightarrow> host \<Rightarrow> host" where
  "on_where_error command h = not_found command h"

definition on_exit :: "bool option \<Rightarrow> nat option \<Rightarrow> host \<Rightarrow> host" where
  "on_exit strict code h =
     (case code of
        Some c \<Rightarrow> new_promise Resolved (h\<lparr>exitCode := Some c\<rparr>)
      | None \<Rightarrow>
          rejectIfStrictOrResolve strict
            (logger_call (errorIfStrictOrWarn strict) ''exit code is unknown'' h))"

definition on_disconnect :: "bool option \<Rightarrow> nat option \<Rightarrow> host \<Rightarrow> host" where
  "on_disconnect strict pid h =
     rejectIfStrictOrResolve strict
       (logger_call (errorIfStrictOrWarn strict)
          (''process '' @ template_num pid @ '' disconnected.'') h)"

definition on_close :: "bool option \<Rightarrow> nat option \<Rightarrow> host \<Rightarrow> host" where
  "on_close verbose pid h =
     (if truthy verbose
      then logger_call Info (''process '' @ template_num pid @ '' closed.'') h
      else h)"

text \<open>
  The events the source listens for. An event reaches a listener only while the process
  runs and only when the listener was registered.
\<close>

datatype event =
  WhereClose "nat option" | WhereError | ProcExit "nat option" | ProcDisconnect | ProcClose

definition deliver ::
  "string \<Rightarrow> bool option \<Rightarrow> bool option \<Rightarrow> call \<Rightarrow> event \<Rightarrow> host \<Rightarrow> host" where
  "deliver command strict verbose c ev h =
     (if exited h \<noteq> None then h
      else case ev of
             WhereClose code \<Rightarrow> if where_on c then on_where_close command code h else h
           | WhereError \<Rightarrow> if where_on c then on_where_error command h else h
           | ProcExit code \<Rightarrow>
               (case proc_on c of Unattached \<Rightarrow> h | Attached pid \<Rightarrow> on_exit strict code h)
           | ProcDisconnect \<Rightarrow>
               (case proc_on c of Unattached \<Rightarrow> h | Attached pid \<Rightarrow> on_disconnect strict pid h)
           | ProcClose \<Rightarrow>
               (case proc_on c of Unattached \<Rightarrow> h | Attached pid \<Rightarrow> on_close verbose pid h))"

fun deliver_all ::
  "string \<Rightarrow> bool option \<Rightarrow> bool option \<Rightarrow> call \<Rightarrow> event list \<Rightarrow> host \<Rightarrow> host" where
  "deliver_all command strict verbose c [] h = h"
| "deliver_all command strict verbose c (ev # evs) h =
     deliver_all command strict verbose c evs (deliver command strict verbose c ev h)"

text \<open>One invocation: the body, then the events of its two children.\<close>

record invocation =
  inv_command :: string
  inv_args :: "string list option"
  inv_strict :: "bool option"
  inv_verbose :: "bool option"
  inv_lookup :: spawn_outcome
  inv_child :: spawn_outcome
  inv_events :: "event list"

definition invoke :: "invocation \<Rightarrow> host \<Rightarrow> call \<times> host" where
  "invoke i h =
     (case wiex (inv_command i) (inv_args i) (inv_strict i) (inv_verbose i)
             (inv_lookup i) (inv_child i) h of
        (c, h') \<Rightarrow>
          (c, deliver_all (inv_command i) (inv_strict i) (inv_verbose i) c (inv_events i) h'))"

text \<open>Invocations in sequence; none starts once the process has ended.\<close>

fun invoke_all :: "invocation list \<Rightarrow> host \<Rightarrow> host" where
  "invoke_all [] h = h"
| "invoke_all (i # is) h =
     (if exited h \<noteq> None then h else invoke_all is (snd (invoke i h)))"

subsection \<open>The argument scan of \<^verbatim>\<open>cli\<close>\<close>

definition WIEX_OPTIONS :: "string list" where
  "WIEX_OPTIONS = [''--version'', ''--strict'', ''--verbose'', ''--help'']"

record scan =
  wiexArgs :: "(string \<rightharpoonup> bool) option"
  command :: "string option"
  commandArgs :: "string list option"

text \<open>
  The callback of line 98. It receives the accumulator, the element, its index and the
  array under iteration, and returns the new accumulator with the array as it leaves it:
  \<^verbatim>\<open>arr.splice(1)\<close> keeps the first element only. A flag is stored under the key
  \<^verbatim>\<open>arg\<close> itself, and the accumulator it returns has no command.
\<close>

definition callback ::
  "string list \<Rightarrow> scan \<Rightarrow> string \<Rightarrow> nat \<Rightarrow> string list \<Rightarrow> scan \<times> string list" where
  "callback args acc arg index arr =
     (if arg \<in> set WIEX_OPTIONS
      then (\<lparr>wiexArgs = Some ((case wiexArgs acc of None \<Rightarrow> Map.empty | Some m \<Rightarrow> m)(arg \<mapsto> True)),
             command = None, commandArgs = None\<rparr>, arr)
      else (\<lparr>wiexArgs = wiexArgs acc, command = Some arg,
             commandArgs = Some (drop (index + 1) args)\<rparr>, take 1 arr))"

text \<open>
  \<^verbatim>\<open>Array.prototype.reduce\<close> with an initial value: the length is read once, and an
  index is visited only if the array still has it.
\<close>

function reduce ::
  "(scan \<Rightarrow> string \<Rightarrow> nat \<Rightarrow> string list \<Rightarrow> scan \<times> string list) \<Rightarrow>
   nat \<Rightarrow> nat \<Rightarrow> scan \<Rightarrow> string list \<Rightarrow> scan" where
  "reduce f len k acc arr =
     (if k < len
      then (if k < length arr
            then reduce f len (k + 1) (fst (f acc (arr ! k) k arr)) (snd (f acc (arr ! k) k arr))
            else reduce f len (k + 1) acc arr)
      else acc)"
  by pat_completeness auto
termination
  by (relation "measure (\<lambda>(f, len, k, acc, arr). len - k)") auto

declare reduce.simps [simp del]

definition parse_args :: "string list \<Rightarrow> scan" where
  "parse_args args =
     reduce (callback args) (length args) 0
       \<lparr>wiexArgs = None, command = None, commandArgs = None\<rparr> args"

section \<open>Properties\<close>

subsection \<open>Auxiliary facts\<close>

lemmas host_ops = logger_call_def process_exit_def spawn_def new_promise_def not_found_def

lemmas listener_defs = on_where_close_def on_where_error_def on_exit_def on_disconnect_def
  on_close_def rejectIfStrictOrResolve_def errorIfStrictOrWarn_def

lemma wiex_call:
  "fst (wiex cmd cargs strict verbose (Child p) (Child pid) h) =
     \<lparr>promise = Some Resolved, where_on = True, proc_on = Attached pid\<rparr>"
  by (simp add: wiex_def Let_def)

lemma wiex_where_on:
  "where_on (fst (wiex cmd cargs strict verbose (Child p) child h))"
  by (simp add: wiex_def Let_def split: spawn_outcome.split)

lemma wiex_spawn_calls:
  "spawn_calls (snd (wiex cmd cargs strict verbose (Child p) child h)) =
     spawn_calls h @
       [\<lparr>program = ''where '' @ cmd, argv = None, child_env = None\<rparr>,
        \<lparr>program = cmd, argv = cargs, child_env = Some (child_environment h)\<rparr>]"
  by (simp add: wiex_def Let_def host_ops child_environment_def split: spawn_outcome.split)

lemma snd_invoke:
  "snd (invoke i h) =
     deliver_all (inv_command i) (inv_strict i) (inv_verbose i)
       (fst (wiex (inv_command i) (inv_args i) (inv_strict i) (inv_verbose i)
          (inv_lookup i) (inv_child i) h))
       (inv_events i)
       (snd (wiex (inv_command i) (inv_args i) (inv_strict i) (inv_verbose i)
          (inv_lookup i) (inv_child i) h))"
  by (simp add: invoke_def case_prod_beta)

text \<open>Neither the body nor a listener assigns to \<^verbatim>\<open>process.env\<close>.\<close>

lemma env_wiex: "env (snd (wiex cmd cargs strict verbose lookup child h)) = env h"
  by (simp add: wiex_def Let_def host_ops split: spawn_outcome.split)

lemma env_deliver: "env (deliver cmd strict verbose c ev h) = env h"
  by (simp add: deliver_def listener_defs host_ops
      split: event.split option.split listeners.split)

lemma env_deliver_all: "env (deliver_all cmd strict verbose c evs h) = env h"
  by (induction evs arbitrary: h) (simp_all add: env_deliver)

lemma env_invoke: "env (snd (invoke i h)) = env h"
  by (simp add: snd_invoke env_deliver_all env_wiex)

lemma env_invoke_all: "env (invoke_all is h) = env h"
  by (induction "is" arbitrary: h) (simp_all add: env_invoke)

lemma child_environment_cong: "env h = env h' \<Longrightarrow> child_environment h = child_environment h'"
  by (simp add: child_environment_def)

text \<open>No listener calls \<^verbatim>\<open>spawn\<close>, and none logs the warning about the unset variable.\<close>

lemma spawn_calls_deliver: "spawn_calls (deliver cmd strict verbose c ev h) = spawn_calls h"
  by (simp add: deliver_def listener_defs host_ops
      split: event.split option.split listeners.split)

lemma spawn_calls_deliver_all:
  "spawn_calls (deliver_all cmd strict verbose c evs h) = spawn_calls h"
  by (induction evs arbitrary: h) (simp_all add: spawn_calls_deliver)

lemma unset_warning_deliver:
  "count_list (logged (deliver cmd strict verbose c ev h))
      (Warn, ''$WIEX_PATH is not set, so wiex not expand $PATH'')
   = count_list (logged h) (Warn, ''$WIEX_PATH is not set, so wiex not expand $PATH'')"
  by (simp add: deliver_def listener_defs host_ops
      split: event.split option.split listeners.split)

lemma unset_warning_deliver_all:
  "count_list (logged (deliver_all cmd strict verbose c evs h))
      (Warn, ''$WIEX_PATH is not set, so wiex not expand $PATH'')
   = count_list (logged h) (Warn, ''$WIEX_PATH is not set, so wiex not expand $PATH'')"
  by (induction evs arbitrary: h) (simp_all add: unset_warning_deliver)

subsection \<open>The lookup\<close>

text \<open>
  C10. The lookup is the first call of \<^verbatim>\<open>spawn\<close> that an invocation makes, and it is
  made with the single string \<^verbatim>\<open>where \<close> followed by the command as the program name,
  without an argument vector and without options: the command is part of the name of the
  executable, not an argument of \<^verbatim>\<open>where\<close>.
\<close>

theorem lookup_spawn_call:
  "take (Suc (length (spawn_calls h)))
     (spawn_calls (snd (wiex cmd cargs strict verbose lookup child h)))
     = spawn_calls h @ [\<lparr>program = ''where '' @ cmd, argv = None, child_env = None\<rparr>]"
  by (simp add: wiex_def Let_def host_ops split: spawn_outcome.split)

theorem lookup_spawn_call_witness:
  "take (Suc 0)
     (spawn_calls (snd (wiex ''cargo.exe'' (Some [''--version'']) None None
        (Child None) (Child (Some 7)) (start Map.empty))))
     = [\<lparr>program = ''where cargo.exe'', argv = None, child_env = None\<rparr>]"
  using lookup_spawn_call [of "start Map.empty" "''cargo.exe''" "Some [''--version'']"
      None None "Child None" "Child (Some 7)"]
  by (simp add: start_def)

text \<open>
  C1. When the lookup closes with a status other than zero or with no status, when it
  emits an error, and when its \<^verbatim>\<open>spawn\<close> throws, the program logs the one error line
  \<^verbatim>\<open>Error: {command} not found\<close> and ends the process with status 1, whatever
  \<open>strict\<close> and \<open>verbose\<close> are. For the two events the host is any running state and
  the call is one whose lookup was spawned; nothing else of the host changes.
\<close>

theorem lookup_failure_is_fatal:
  assumes running: "exited h = None"
    and failed: "code \<noteq> Some 0"
    and c: "c = fst (wiex cmd cargs strict verbose (Child p) child h0)"
  shows "deliver cmd strict verbose c (WhereClose code) h =
           h\<lparr>logged := logged h @ [(Error, ''Error: '' @ cmd @ '' not found'')],
             exited := Some 1\<rparr>
       \<and> deliver cmd strict verbose c WhereError h =
           h\<lparr>logged := logged h @ [(Error, ''Error: '' @ cmd @ '' not found'')],
             exited := Some 1\<rparr>
       \<and> exited (snd (wiex cmd cargs strict verbose Throws child h)) = Some 1
       \<and> filter (\<lambda>l. fst l = Error)
             (logged (snd (wiex cmd cargs strict verbose Throws child h))) =
           filter (\<lambda>l. fst l = Error) (logged h) @
             [(Error, ''Error: '' @ cmd @ '' not found'')]"
proof -
  have on: "where_on c"
    unfolding c by (rule wiex_where_on)
  have close: "on_where_close cmd code h = not_found cmd h"
    using failed by (cases code) (simp_all add: on_where_close_def)
  have nf: "not_found cmd h =
      h\<lparr>logged := logged h @ [(Error, ''Error: '' @ cmd @ '' not found'')], exited := Some 1\<rparr>"
    by (simp add: host_ops commandNotExistErrorMessage_def)
  have 1: "deliver cmd strict verbose c (WhereClose code) h = not_found cmd h"
    using running on close by (simp add: deliver_def)
  have 2: "deliver cmd strict verbose c WhereError h = not_found cmd h"
    using running on by (simp add: deliver_def on_where_error_def)
  have 3: "exited (snd (wiex cmd cargs strict verbose Throws child h)) = Some 1"
    by (simp add: wiex_def Let_def host_ops)
  have 4: "filter (\<lambda>l. fst l = Error)
             (logged (snd (wiex cmd cargs strict verbose Throws child h))) =
           filter (\<lambda>l. fst l = Error) (logged h) @
             [(Error, ''Error: '' @ cmd @ '' not found'')]"
    by (simp add: wiex_def Let_def host_ops commandNotExistErrorMessage_def)
  show ?thesis using 1 2 3 4 nf by simp
qed

theorem lookup_failure_is_fatal_witness:
  "deliver ''missing.exe'' (Some True) None
      (fst (wiex ''missing.exe'' None (Some True) None (Child (Some 3)) (Child (Some 4))
         (start Map.empty)))
      (WhereClose (Some 2)) (start Map.empty)
     = \<lparr>env = Map.empty, logged = [(Error, ''Error: missing.exe not found'')],
        exitCode = None, exited = Some 1, spawn_calls = [], detached = []\<rparr>"
  using lookup_failure_is_fatal [of "start Map.empty" "Some 2" _ "''missing.exe''" None
      "Some True" None "Some 3" "Child (Some 4)" "start Map.empty", OF _ _ refl]
  by (simp add: start_def)

subsection \<open>The end of the child\<close>

text \<open>
  C2. When the child exits with a code \<open>n\<close>, the listener stores \<open>n\<close> in
  \<^verbatim>\<open>process.exitCode\<close>, in lenient and in strict mode alike; it logs nothing and does
  not end the process. The promise of the call is resolved: it was resolved when the body
  returned, and the listener leaves it alone.
\<close>

theorem exit_code_is_relayed:
  assumes running: "exited h = None"
    and c: "c = fst (wiex cmd cargs strict verbose (Child p) (Child pid) h0)"
  shows "exitCode (deliver cmd strict verbose c (ProcExit (Some n)) h) = Some n
       \<and> promise c = Some Resolved
       \<and> logged (deliver cmd strict verbose c (ProcExit (Some n)) h) = logged h
       \<and> exited (deliver cmd strict verbose c (ProcExit (Some n)) h) = None"
  using running unfolding c wiex_call
  by (simp add: deliver_def on_exit_def host_ops)

theorem exit_code_is_relayed_witness:
  "exitCode (deliver ''cargo.exe'' (Some True) None
      (fst (wiex ''cargo.exe'' None (Some True) None (Child (Some 3)) (Child (Some 4))
         (start Map.empty)))
      (ProcExit (Some 101)) (start Map.empty)) = Some 101"
  using exit_code_is_relayed [of "start Map.empty" _ "''cargo.exe''" None "Some True" None
      "Some 3" "Some 4" "start Map.empty" 101, OF _ refl]
  by (simp add: start_def)

text \<open>
  What the two listeners of an ambiguous end do, in either mode: one log line, at error
  level in strict mode and at warn level otherwise, with the same text; and one new
  promise, rejected in strict mode and resolved otherwise, which nothing holds. The promise
  of the call is no part of the host state they act on.
\<close>

lemma ambiguous_end:
  assumes running: "exited h = None"
    and c: "c = fst (wiex cmd cargs strict verbose (Child p) (Child pid) h0)"
  shows "deliver cmd strict verbose c (ProcExit None) h =
           h\<lparr>logged := logged h @ [(if truthy strict then Error else Warn, ''exit code is unknown'')],
             detached := detached h @ [if truthy strict then Rejected else Resolved]\<rparr>"
    and "deliver cmd strict verbose c ProcDisconnect h =
           h\<lparr>logged := logged h @
               [(if truthy strict then Error else Warn,
                 ''process '' @ template_num pid @ '' disconnected.'')],
             detached := detached h @ [if truthy strict then Rejected else Resolved]\<rparr>"
    and "promise c = Some Resolved"
  using running unfolding c wiex_call
  by (simp_all add: deliver_def listener_defs host_ops)

text \<open>
  C3. In strict mode the promise that \<^verbatim>\<open>wiex\<close> returned is resolved, not rejected,
  after a disconnect and after an exit without a code: the rejected promise is a new one
  made by \<^verbatim>\<open>Promise.reject\<close> inside the listener. The log line is at error level.
\<close>

theorem strict_ambiguous_end_does_not_reject:
  "invoke
     \<lparr>inv_command = ''flaky.exe'', inv_args = None, inv_strict = Some True,
       inv_verbose = None, inv_lookup = Child (Some 12), inv_child = Child (Some 13),
       inv_events = [ProcDisconnect]\<rparr>
     (start [''WIEX_PATH'' \<mapsto> ''/mnt/c/bin''])
   = (\<lparr>promise = Some Resolved, where_on = True, proc_on = Attached (Some 13)\<rparr>,
      \<lparr>env = [''WIEX_PATH'' \<mapsto> ''/mnt/c/bin''],
       logged = [(Error, ''process 13 disconnected.'')],
       exitCode = None, exited = None,
       spawn_calls =
         [\<lparr>program = ''where flaky.exe'', argv = None, child_env = None\<rparr>,
          \<lparr>program = ''flaky.exe'', argv = None,
           child_env = Some (child_environment (start [''WIEX_PATH'' \<mapsto> ''/mnt/c/bin'']))\<rparr>],
       detached = [Rejected]\<rparr>)
   \<and> invoke
     \<lparr>inv_command = ''flaky.exe'', inv_args = None, inv_strict = Some True,
       inv_verbose = None, inv_lookup = Child (Some 12), inv_child = Child (Some 13),
       inv_events = [ProcExit None]\<rparr>
     (start [''WIEX_PATH'' \<mapsto> ''/mnt/c/bin''])
   = (\<lparr>promise = Some Resolved, where_on = True, proc_on = Attached (Some 13)\<rparr>,
      \<lparr>env = [''WIEX_PATH'' \<mapsto> ''/mnt/c/bin''],
       logged = [(Error, ''exit code is unknown'')],
       exitCode = None, exited = None,
       spawn_calls =
         [\<lparr>program = ''where flaky.exe'', argv = None, child_env = None\<rparr>,
          \<lparr>program = ''flaky.exe'', argv = None,
           child_env = Some (child_environment (start [''WIEX_PATH'' \<mapsto> ''/mnt/c/bin'']))\<rparr>],
       detached = [Rejected]\<rparr>)"
  by (simp add: invoke_def wiex_def Let_def deliver_def listener_defs host_ops start_def
      truthy_def falsy_str_def template_num_def decimal.simps child_environment_def)

text \<open>
  C7. The close event of the child reaches a listener that appends the one info line
  \<^verbatim>\<open>process {pid} closed.\<close> when \<open>verbose\<close> is truthy and does nothing otherwise. No
  other part of the host state changes: exit code, termination, spawned processes and
  promises stay as they were.
\<close>

theorem close_event_only_logs:
  assumes running: "exited h = None"
    and c: "c = fst (wiex cmd cargs strict verbose (Child p) (Child pid) h0)"
  shows "deliver cmd strict verbose c ProcClose h =
           (if truthy verbose
            then h\<lparr>logged := logged h @
                     [(Info, ''process '' @ template_num pid @ '' closed.'')]\<rparr>
            else h)"
  using running unfolding c wiex_call
  by (simp add: deliver_def on_close_def host_ops)

theorem close_event_only_logs_witness:
  "deliver ''cargo.exe'' None (Some True)
      (fst (wiex ''cargo.exe'' None None (Some True) (Child (Some 3)) (Child (Some 42))
         (start Map.empty)))
      ProcClose (start Map.empty)
    = \<lparr>env = Map.empty, logged = [(Info, ''process 42 closed.'')], exitCode = None,
        exited = None, spawn_calls = [], detached = []\<rparr>
   \<and> deliver ''cargo.exe'' None None
      (fst (wiex ''cargo.exe'' None None None (Child (Some 3)) (Child (Some 42))
         (start Map.empty)))
      ProcClose (start Map.empty) = start Map.empty"
  using close_event_only_logs [of "start Map.empty" _ "''cargo.exe''" None None "Some True"
      "Some 3" "Some 42" "start Map.empty", OF _ refl]
    close_event_only_logs [of "start Map.empty" _ "''cargo.exe''" None None None
      "Some 3" "Some 42" "start Map.empty", OF _ refl]
  by (simp add: start_def truthy_def template_num_def decimal.simps)

subsection \<open>The environment of the child\<close>

text \<open>
  What line 69 hands to the child, for every invocation whose lookup was spawned: the
  command, the arguments as given, and a copy of the environment of the host in which
  \<^verbatim>\<open>PATH\<close> alone is written. Its value is the inherited path, a colon and the value
  of \<^verbatim>\<open>WIEX_PATH\<close>, where a variable that is not set contributes the word
  \<^verbatim>\<open>undefined\<close>. Every other variable has its inherited value.
\<close>

lemma child_spawn_call:
  "spawn_calls (snd (wiex cmd cargs strict verbose (Child p) child h)) =
     spawn_calls h @
       [\<lparr>program = ''where '' @ cmd, argv = None, child_env = None\<rparr>,
        \<lparr>program = cmd, argv = cargs, child_env = Some (child_environment h)\<rparr>]"
  by (rule wiex_spawn_calls)

lemma child_environment_path:
  "child_environment h ''PATH'' =
     Some ((case env h ''PATH'' of None \<Rightarrow> ''undefined'' | Some inherited \<Rightarrow> inherited)
           @ '':'' @
           (case env h ''WIEX_PATH'' of None \<Rightarrow> ''undefined'' | Some extra \<Rightarrow> extra))"
  by (simp add: child_environment_def template_str_def)

lemma child_environment_frame:
  "k \<noteq> ''PATH'' \<Longrightarrow> child_environment h k = env h k"
  by (simp add: child_environment_def)

lemma child_environment_both_set:
  assumes "env h ''PATH'' = Some inherited" and "env h ''WIEX_PATH'' = Some extra"
  shows "child_environment h ''PATH'' = Some (inherited @ '':'' @ extra)"
  using assms by (simp add: child_environment_path)

text \<open>
  C5. With \<^verbatim>\<open>HOME=/home/alice\<close>, \<^verbatim>\<open>PATH=/usr/bin\<close> and \<^verbatim>\<open>WIEX_PATH\<close> unset, the
  child \<^verbatim>\<open>cargo.exe --version\<close> is spawned with \<^verbatim>\<open>HOME\<close> as inherited and with
  \<^verbatim>\<open>PATH=/usr/bin:undefined\<close>. The path is not the inherited path, the separator and
  the augmentation value: no augmentation value exists, and the text after the colon is
  the rendering of the missing value.
\<close>

theorem child_path_holds_rendered_missing_value:
  "spawn_calls (snd (wiex ''cargo.exe'' (Some [''--version'']) None None
       (Child (Some 1)) (Child (Some 2))
       (start [''HOME'' \<mapsto> ''/home/alice'', ''PATH'' \<mapsto> ''/usr/bin''])))
     = [\<lparr>program = ''where cargo.exe'', argv = None, child_env = None\<rparr>,
        \<lparr>program = ''cargo.exe'', argv = Some [''--version''],
         child_env = Some (child_environment
           (start [''HOME'' \<mapsto> ''/home/alice'', ''PATH'' \<mapsto> ''/usr/bin'']))\<rparr>]
   \<and> map (env (start [''HOME'' \<mapsto> ''/home/alice'', ''PATH'' \<mapsto> ''/usr/bin'']))
       [''HOME'', ''PATH'', ''WIEX_PATH'']
     = [Some ''/home/alice'', Some ''/usr/bin'', None]
   \<and> map (child_environment (start [''HOME'' \<mapsto> ''/home/alice'', ''PATH'' \<mapsto> ''/usr/bin'']))
       [''HOME'', ''PATH'', ''WIEX_PATH'']
     = [Some ''/home/alice'', Some ''/usr/bin:undefined'', None]"
  by (simp add: wiex_spawn_calls) (simp add: child_environment_def template_str_def start_def)

text \<open>
  C4. With \<^verbatim>\<open>WIEX_PATH\<close> unset and \<^verbatim>\<open>PATH=/usr/bin\<close>, the child is given
  \<^verbatim>\<open>PATH=/usr/bin:undefined\<close>: the template literal of line 69 renders the missing
  value as the word \<^verbatim>\<open>undefined\<close>, so the path of the child is not the inherited one.
\<close>

theorem unset_augmentation_changes_path:
  "env (start [''PATH'' \<mapsto> ''/usr/bin'']) ''WIEX_PATH'' = None
   \<and> env (start [''PATH'' \<mapsto> ''/usr/bin'']) ''PATH'' = Some ''/usr/bin''
   \<and> map (\<lambda>c. (program c, map_option (\<lambda>e. e ''PATH'') (child_env c)))
       (spawn_calls (snd (wiex ''cargo.exe'' None None None (Child (Some 1)) (Child (Some 2))
          (start [''PATH'' \<mapsto> ''/usr/bin'']))))
     = [(''where cargo.exe'', None), (''cargo.exe'', Some (Some ''/usr/bin:undefined''))]"
  by (simp add: wiex_spawn_calls) (simp add: child_environment_def template_str_def start_def)

text \<open>
  C6. With \<^verbatim>\<open>WIEX_PATH\<close> unset the body logs the one warning
  \<^verbatim>\<open>$WIEX_PATH is not set, so wiex not expand $PATH\<close> and goes on: the lookup and the
  child are spawned, the process is not ended, and the promise of the call is resolved.
  The call and the termination status are those of the same invocation with the variable
  set. Over a whole invocation, with any events, the warning is logged exactly once.
\<close>

theorem unset_augmentation_warns_and_proceeds:
  assumes unset: "env h ''WIEX_PATH'' = None"
  shows "logged (snd (wiex cmd cargs strict verbose (Child p) child h)) =
           logged h @ [(Warn, ''$WIEX_PATH is not set, so wiex not expand $PATH'')]
       \<and> spawn_calls (snd (wiex cmd cargs strict verbose (Child p) child h)) =
           spawn_calls h @
             [\<lparr>program = ''where '' @ cmd, argv = None, child_env = None\<rparr>,
              \<lparr>program = cmd, argv = cargs, child_env = Some (child_environment h)\<rparr>]
       \<and> exited (snd (wiex cmd cargs strict verbose (Child p) child h)) = exited h
       \<and> promise (fst (wiex cmd cargs strict verbose (Child p) (Child pid) h)) = Some Resolved
       \<and> fst (wiex cmd cargs strict verbose lookup child h) =
           fst (wiex cmd cargs strict verbose lookup child
             (h\<lparr>env := (env h)(''WIEX_PATH'' \<mapsto> extra)\<rparr>))
       \<and> exited (snd (wiex cmd cargs strict verbose lookup child h)) =
           exited (snd (wiex cmd cargs strict verbose lookup child
             (h\<lparr>env := (env h)(''WIEX_PATH'' \<mapsto> extra)\<rparr>)))
       \<and> count_list (logged (snd (invoke i h)))
             (Warn, ''$WIEX_PATH is not set, so wiex not expand $PATH'')
           = Suc (count_list (logged h)
               (Warn, ''$WIEX_PATH is not set, so wiex not expand $PATH''))"
proof -
  have falsy: "falsy_str (env h ''WIEX_PATH'')"
    using unset by (simp add: falsy_str_def)
  have 1: "logged (snd (wiex cmd cargs strict verbose (Child p) child h)) =
           logged h @ [(Warn, ''$WIEX_PATH is not set, so wiex not expand $PATH'')]"
    using falsy by (simp add: wiex_def Let_def host_ops split: spawn_outcome.split)
  have 2: "spawn_calls (snd (wiex cmd cargs strict verbose (Child p) child h)) =
           spawn_calls h @
             [\<lparr>program = ''where '' @ cmd, argv = None, child_env = None\<rparr>,
              \<lparr>program = cmd, argv = cargs, child_env = Some (child_environment h)\<rparr>]"
    by (rule wiex_spawn_calls)
  have 3: "exited (snd (wiex cmd cargs strict verbose (Child p) child h)) = exited h"
    by (simp add: wiex_def Let_def host_ops split: spawn_outcome.split)
  have 4: "promise (fst (wiex cmd cargs strict verbose (Child p) (Child pid) h)) = Some Resolved"
    by (simp add: wiex_call)
  have 5: "fst (wiex cmd cargs strict verbose lookup child h) =
           fst (wiex cmd cargs strict verbose lookup child
             (h\<lparr>env := (env h)(''WIEX_PATH'' \<mapsto> extra)\<rparr>))"
    by (simp add: wiex_def Let_def split: spawn_outcome.split)
  have 6: "exited (snd (wiex cmd cargs strict verbose lookup child h)) =
           exited (snd (wiex cmd cargs strict verbose lookup child
             (h\<lparr>env := (env h)(''WIEX_PATH'' \<mapsto> extra)\<rparr>)))"
    by (simp add: wiex_def Let_def host_ops split: spawn_outcome.split)
  have body: "count_list (logged (snd (wiex cmd' cargs' strict' verbose' lookup' child' h)))
             (Warn, ''$WIEX_PATH is not set, so wiex not expand $PATH'')
           = Suc (count_list (logged h)
               (Warn, ''$WIEX_PATH is not set, so wiex not expand $PATH''))"
    for cmd' cargs' strict' verbose' lookup' child'
    using falsy
    by (simp add: wiex_def Let_def host_ops split: spawn_outcome.split)
  have 7: "count_list (logged (snd (invoke i h)))
             (Warn, ''$WIEX_PATH is not set, so wiex not expand $PATH'')
           = Suc (count_list (logged h)
               (Warn, ''$WIEX_PATH is not set, so wiex not expand $PATH''))"
    using body [of "inv_command i" "inv_args i" "inv_strict i" "inv_verbose i"
        "inv_lookup i" "inv_child i"]
    by (simp add: snd_invoke unset_warning_deliver_all)
  show ?thesis using 1 2 3 4 5 6 7 by simp
qed

theorem unset_augmentation_warns_and_proceeds_witness:
  "logged (snd (wiex ''cargo.exe'' None None None (Child (Some 1)) (Child (Some 2))
      (start [''PATH'' \<mapsto> ''/usr/bin''])))
     = [(Warn, ''$WIEX_PATH is not set, so wiex not expand $PATH'')]
   \<and> exited (snd (wiex ''cargo.exe'' None None None (Child (Some 1)) (Child (Some 2))
      (start [''PATH'' \<mapsto> ''/usr/bin'']))) = None
   \<and> promise (fst (wiex ''cargo.exe'' None None None (Child (Some 1)) (Child (Some 2))
      (start [''PATH'' \<mapsto> ''/usr/bin'']))) = Some Resolved"
  using unset_augmentation_warns_and_proceeds [of "start [''PATH'' \<mapsto> ''/usr/bin'']"
      "''cargo.exe''" None None None "Some 1" "Child (Some 2)" "Some 2"]
  by (simp add: start_def)

text \<open>
  C8. No invocation changes \<^verbatim>\<open>process.env\<close>. After any sequence of invocations, each
  with any events, the environment of the host is the one it started with, and so it is
  after one more invocation; the child of that invocation is given the environment
  derived from the starting one.
\<close>

theorem host_environment_is_never_changed:
  "env (invoke_all is h) = env h
   \<and> env (snd (invoke i (invoke_all is h))) = env h
   \<and> (inv_lookup i = Child p \<longrightarrow>
        spawn_calls (snd (invoke i (invoke_all is h))) =
          spawn_calls (invoke_all is h) @
            [\<lparr>program = ''where '' @ inv_command i, argv = None, child_env = None\<rparr>,
             \<lparr>program = inv_command i, argv = inv_args i,
              child_env = Some (child_environment h)\<rparr>])"
proof -
  have e: "env (invoke_all is h) = env h"
    by (rule env_invoke_all)
  have ce: "child_environment (invoke_all is h) = child_environment h"
    using e by (rule child_environment_cong)
  have e': "env (snd (invoke i (invoke_all is h))) = env h"
    by (simp add: env_invoke e)
  have calls: "spawn_calls (snd (invoke i (invoke_all is h))) =
          spawn_calls (invoke_all is h) @
            [\<lparr>program = ''where '' @ inv_command i, argv = None, child_env = None\<rparr>,
             \<lparr>program = inv_command i, argv = inv_args i,
              child_env = Some (child_environment h)\<rparr>]"
    if "inv_lookup i = Child p"
    using that by (simp add: snd_invoke spawn_calls_deliver_all wiex_spawn_calls ce)
  show ?thesis
    using e e' calls by blast
qed

theorem host_environment_is_never_changed_witness:
  "env (snd (invoke
      \<lparr>inv_command = ''flaky.exe'', inv_args = None, inv_strict = Some True,
        inv_verbose = None, inv_lookup = Child (Some 12), inv_child = Child (Some 13),
        inv_events = [ProcDisconnect, ProcClose]\<rparr>
      (invoke_all
        [\<lparr>inv_command = ''cargo.exe'', inv_args = Some [''--version''], inv_strict = None,
          inv_verbose = Some True, inv_lookup = Child (Some 10), inv_child = Child (Some 11),
          inv_events = [WhereClose (Some 0), ProcExit (Some 0), ProcClose]\<rparr>]
        (start [''PATH'' \<mapsto> ''/usr/bin'', ''WIEX_PATH'' \<mapsto> ''/mnt/c/bin'']))))
   = [''PATH'' \<mapsto> ''/usr/bin'', ''WIEX_PATH'' \<mapsto> ''/mnt/c/bin'']"
  using host_environment_is_never_changed
    [of "[\<lparr>inv_command = ''cargo.exe'', inv_args = Some [''--version''], inv_strict = None,
          inv_verbose = Some True, inv_lookup = Child (Some 10), inv_child = Child (Some 11),
          inv_events = [WhereClose (Some 0), ProcExit (Some 0), ProcClose]\<rparr>]"
        "start [''PATH'' \<mapsto> ''/usr/bin'', ''WIEX_PATH'' \<mapsto> ''/mnt/c/bin'']"
        "\<lparr>inv_command = ''flaky.exe'', inv_args = None, inv_strict = Some True,
        inv_verbose = None, inv_lookup = Child (Some 12), inv_child = Child (Some 13),
        inv_events = [ProcDisconnect, ProcClose]\<rparr>" "Some 12"]
  by (simp add: start_def)

subsection \<open>The argument scan\<close>

text \<open>
  Once the array under iteration is shorter than the index, the loop visits nothing more:
  this is how \<^verbatim>\<open>arr.splice(1)\<close> ends the scan.
\<close>

lemma reduce_exhausted:
  "length arr \<le> k \<Longrightarrow> reduce f len k acc arr = acc"
proof (induction f len k acc arr rule: reduce.induct)
  case (1 f len k acc arr)
  show ?case
  proof (cases "k < len")
    case True
    with "1.prems" have "reduce f len (k + 1) acc arr = acc"
      by (intro "1.IH"(2)) simp_all
    with True "1.prems" show ?thesis
      by (subst reduce.simps) simp
  next
    case False
    then show ?thesis by (subst reduce.simps) simp
  qed
qed

lemma reduce_flag:
  assumes "k < length args" and "args ! k \<in> set WIEX_OPTIONS"
  shows "reduce (callback args) (length args) k acc args =
         reduce (callback args) (length args) (Suc k)
           \<lparr>wiexArgs = Some ((case wiexArgs acc of None \<Rightarrow> Map.empty | Some m \<Rightarrow> m)(args ! k \<mapsto> True)),
            command = None, commandArgs = None\<rparr> args"
  using assms by (subst reduce.simps) (simp add: callback_def)

lemma reduce_command:
  assumes "k < length args" and "args ! k \<notin> set WIEX_OPTIONS"
  shows "reduce (callback args) (length args) k acc args =
         \<lparr>wiexArgs = wiexArgs acc, command = Some (args ! k),
          commandArgs = Some (drop (Suc k) args)\<rparr>"
  using assms by (subst reduce.simps) (simp add: callback_def reduce_exhausted)

lemma scan_to_command:
  assumes "set p2 \<subseteq> set WIEX_OPTIONS" and "c \<notin> set WIEX_OPTIONS"
    and "args = p1 @ p2 @ c # rest"
  shows "reduce (callback args) (length args) (length p1) acc args =
         \<lparr>wiexArgs = wiexArgs (reduce (callback (p1 @ p2)) (length (p1 @ p2)) (length p1) acc (p1 @ p2)),
          command = Some c, commandArgs = Some rest\<rparr>"
  using assms
proof (induction p2 arbitrary: p1 acc)
  case Nil
  have k: "length p1 < length args" "args ! length p1 = c" "drop (Suc (length p1)) args = rest"
    using Nil.prems(3) by simp_all
  have "reduce (callback args) (length args) (length p1) acc args =
        \<lparr>wiexArgs = wiexArgs acc, command = Some c, commandArgs = Some rest\<rparr>"
    using reduce_command [of "length p1" args acc] k Nil.prems(2) by simp
  then show ?case
    by (simp add: reduce_exhausted)
next
  case (Cons a p2)
  let ?acc = "\<lparr>wiexArgs = Some ((case wiexArgs acc of None \<Rightarrow> Map.empty | Some m \<Rightarrow> m)(a \<mapsto> True)),
            command = None, commandArgs = None\<rparr>"
  have a: "a \<in> set WIEX_OPTIONS" and p2: "set p2 \<subseteq> set WIEX_OPTIONS"
    using Cons.prems(1) by simp_all
  have args: "args = (p1 @ [a]) @ p2 @ c # rest"
    using Cons.prems(3) by simp
  have k: "length p1 < length args" "args ! length p1 = a"
    using Cons.prems(3) by simp_all
  have k': "length p1 < length (p1 @ a # p2)" "(p1 @ a # p2) ! length p1 = a"
    by simp_all
  have "reduce (callback args) (length args) (length p1) acc args =
        reduce (callback args) (length args) (length (p1 @ [a])) ?acc args"
    using reduce_flag [of "length p1" args acc] k a by simp
  also have "\<dots> = \<lparr>wiexArgs = wiexArgs (reduce (callback ((p1 @ [a]) @ p2)) (length ((p1 @ [a]) @ p2))
        (length (p1 @ [a])) ?acc ((p1 @ [a]) @ p2)), command = Some c, commandArgs = Some rest\<rparr>"
    by (rule Cons.IH [OF p2 Cons.prems(2) args])
  also have "reduce (callback ((p1 @ [a]) @ p2)) (length ((p1 @ [a]) @ p2))
        (length (p1 @ [a])) ?acc ((p1 @ [a]) @ p2)
      = reduce (callback (p1 @ a # p2)) (length (p1 @ a # p2)) (length p1) acc (p1 @ a # p2)"
    using reduce_flag [of "length p1" "p1 @ a # p2" acc] k' a by simp
  finally show ?case .
qed

lemma scan_flags_only:
  assumes "set p2 \<subseteq> set WIEX_OPTIONS" and "command acc = None"
  shows "command (reduce (callback (p1 @ p2)) (length (p1 @ p2)) (length p1) acc (p1 @ p2)) = None"
  using assms
proof (induction p2 arbitrary: p1 acc)
  case Nil
  then show ?case by (simp add: reduce_exhausted)
next
  case (Cons a p2)
  let ?acc = "\<lparr>wiexArgs = Some ((case wiexArgs acc of None \<Rightarrow> Map.empty | Some m \<Rightarrow> m)(a \<mapsto> True)),
            command = None, commandArgs = None\<rparr>"
  have a: "a \<in> set WIEX_OPTIONS" and p2: "set p2 \<subseteq> set WIEX_OPTIONS"
    using Cons.prems(1) by simp_all
  have "reduce (callback (p1 @ a # p2)) (length (p1 @ a # p2)) (length p1) acc (p1 @ a # p2) =
        reduce (callback (p1 @ a # p2)) (length (p1 @ a # p2)) (Suc (length p1)) ?acc (p1 @ a # p2)"
    using reduce_flag [of "length p1" "p1 @ a # p2" acc] a by simp
  moreover have "command (reduce (callback ((p1 @ [a]) @ p2)) (length ((p1 @ [a]) @ p2))
      (length (p1 @ [a])) ?acc ((p1 @ [a]) @ p2)) = None"
    by (rule Cons.IH [OF p2]) simp
  ultimately show ?case by simp
qed

text \<open>
  C9. The first token that is not one of the four flags is the command, and all the tokens
  after it, flags or not, are its arguments, in order and unchanged. The flags recorded
  are those of the tokens before the command only: the scan of the whole list records
  what the scan of that prefix records. A list of flags alone has no command.
\<close>

theorem first_other_token_is_the_command:
  "(dropWhile (\<lambda>a. a \<in> set WIEX_OPTIONS) args = c # rest \<longrightarrow>
      command (parse_args args) = Some c
      \<and> commandArgs (parse_args args) = Some rest
      \<and> wiexArgs (parse_args args) =
          wiexArgs (parse_args (takeWhile (\<lambda>a. a \<in> set WIEX_OPTIONS) args)))
   \<and> (dropWhile (\<lambda>a. a \<in> set WIEX_OPTIONS) args = [] \<longrightarrow> command (parse_args args) = None)"
proof (intro conjI impI)
  let ?P = "\<lambda>a. a \<in> set WIEX_OPTIONS"
  let ?pre = "takeWhile ?P args"
  have pre: "set ?pre \<subseteq> set WIEX_OPTIONS"
    by (auto dest: set_takeWhileD)
  {
    assume d: "dropWhile ?P args = c # rest"
    have c: "c \<notin> set WIEX_OPTIONS"
      using hd_dropWhile [of ?P args] d by simp
    have args: "args = [] @ ?pre @ c # rest"
      using takeWhile_dropWhile_id [of ?P args] d by simp
    have "parse_args args =
        \<lparr>wiexArgs = wiexArgs (parse_args ?pre), command = Some c, commandArgs = Some rest\<rparr>"
      using scan_to_command [OF pre c args, of "\<lparr>wiexArgs = None, command = None, commandArgs = None\<rparr>"]
      by (simp add: parse_args_def)
    then show "command (parse_args args) = Some c"
      and "commandArgs (parse_args args) = Some rest"
      and "wiexArgs (parse_args args) = wiexArgs (parse_args ?pre)"
      by simp_all
  }
  {
    assume d: "dropWhile ?P args = []"
    have args: "args = ?pre"
      using d by (metis takeWhile_dropWhile_id append_Nil2)
    have "command (parse_args ?pre) = None"
      using scan_flags_only [OF pre, of "\<lparr>wiexArgs = None, command = None, commandArgs = None\<rparr>" "[]"]
      by (simp add: parse_args_def)
    then show "command (parse_args args) = None"
      using args by simp
  }
qed

theorem first_other_token_is_the_command_witness:
  "command (parse_args [''--strict'', ''cargo.exe'', ''--version'', ''build'']) = Some ''cargo.exe''
   \<and> commandArgs (parse_args [''--strict'', ''cargo.exe'', ''--version'', ''build'']) = Some [''--version'', ''build'']
   \<and> command (parse_args [''--strict'', ''--help'']) = None"
  using first_other_token_is_the_command [of "[''--strict'', ''cargo.exe'', ''--version'', ''build'']" "''cargo.exe''" "[''--version'', ''build'']"]
    first_other_token_is_the_command [of "[''--strict'', ''--help'']"]
  by (simp add: WIEX_OPTIONS_def)

end
